theory Spec2Isabelle
  imports Main
begin

section \<open>The Image component (src/image/Image.tsx) as a state machine\<close>

subsection \<open>Data model\<close>

text \<open>
  The \<open>src\<close> property is a string, a \<open>File\<close> object or absent. A \<open>File\<close> is an
  object: it is compared by identity (\<open>===\<close>), here a number, and is always truthy.
\<close>

datatype src_val = Undefined | Str string | File nat

fun truthy :: "src_val \<Rightarrow> bool" where
  "truthy Undefined = False"
| "truthy (Str u) = (u \<noteq> [])"
| "truthy (File _) = True"

datatype overlay_trigger = Always | Hover

text \<open>
  The properties the component reads (lines 25-45). \<open>srcset\<close> is the object in the order
  \<open>Object.entries\<close> enumerates it. Renderable content (\<open>placeholder\<close>,
  \<open>overlayContent\<close>) and the two callbacks are recorded by whether they are supplied.
\<close>

record props =
  src :: src_val
  fallback :: "string option"
  lazy :: bool
  overlayTrigger :: "overlay_trigger option"
  srcset :: "(string \<times> string) list option"
  placeholder :: bool
  gallery :: bool
  overlayContent :: bool
  onLoad :: bool
  onError :: bool

text \<open>The locale object of \<open>useLocaleReceiver\<close>, with its optional rewrite hook.\<close>

record locale_image =
  replaceImageSrc :: "(props \<Rightarrow> string) option"

text \<open>
  Invocations of the external callbacks, each with the number of the event that
  triggered it, in the order they happen.
\<close>

datatype callback = OnLoad nat | OnError nat

text \<open>
  The state cells of the component: the five \<open>useState\<close> cells of Image.tsx, the value
  returned by \<open>useImagePreviewUrl\<close> (an external hook, its value is an input of the
  machine), and the log of callback invocations.
\<close>

record state =
  imageSrc :: src_val
  previewUrl :: string
  shouldLoad :: bool
  isLoaded :: bool
  hasError :: bool
  shouldShowOverlay :: bool
  calls :: "callback list"

text \<open>A mounted instance: the properties and locale of the last render, and the state.\<close>

record component =
  cprops :: props
  clocal :: locale_image
  cstate :: state

text \<open>
  The three load states of the specification, read off the two flags the way the render
  function reads them: the error region is rendered on \<open>hasError\<close>, the loading
  indicator is dropped on \<open>isLoaded\<close>.
\<close>

datatype load_state = NOT_STARTED | LOADED | ERRORED

definition loadState :: "state \<Rightarrow> load_state" where
  "loadState s = (if hasError s then ERRORED else if isLoaded s then LOADED else NOT_STARTED)"

subsection \<open>Initial state (the \<open>useState\<close> initialisers)\<close>

definition hasMouseEvent :: "props \<Rightarrow> bool" where
  "hasMouseEvent p = (overlayTrigger p = Some Hover)"

text \<open>\<open>u\<close> is what \<open>useImagePreviewUrl\<close> returns at the first render.\<close>

definition initial :: "props \<Rightarrow> string \<Rightarrow> state" where
  "initial p u =
     \<lparr> imageSrc = src p,
       previewUrl = u,
       shouldLoad = (\<not> lazy p),
       isLoaded = False,
       hasError = False,
       shouldShowOverlay = (\<not> hasMouseEvent p),
       calls = [] \<rparr>"

subsection \<open>Source resolution effect (lines 59-64)\<close>

definition resolve :: "locale_image \<Rightarrow> props \<Rightarrow> src_val" where
  "resolve l p = (case replaceImageSrc l of Some f \<Rightarrow> Str (f p) | None \<Rightarrow> src p)"

text \<open>
  What the effect assigns: \<open>None\<close> when it returns at the guard without calling
  \<open>setImageSrc\<close>, \<open>Some v\<close> for \<open>setImageSrc(v)\<close>.
\<close>

definition sourceEffect_assign :: "locale_image \<Rightarrow> props \<Rightarrow> state \<Rightarrow> src_val option" where
  "sourceEffect_assign l p s =
     (let tmpUrl = resolve l p in
      if tmpUrl = imageSrc s \<and> truthy (imageSrc s) then None else Some tmpUrl)"

definition sourceEffect :: "locale_image \<Rightarrow> props \<Rightarrow> state \<Rightarrow> state" where
  "sourceEffect l p s =
     (case sourceEffect_assign l p s of None \<Rightarrow> s | Some v \<Rightarrow> s\<lparr>imageSrc := v\<rparr>)"

subsection \<open>Handlers\<close>

definition handleLoadImage :: "state \<Rightarrow> state" where
  "handleLoadImage s = s\<lparr>shouldLoad := True\<rparr>"

text \<open>\<open>cb?.({ e })\<close>: the callback is invoked when it is supplied.\<close>

definition invoke :: "bool \<Rightarrow> callback \<Rightarrow> state \<Rightarrow> state" where
  "invoke supplied c s = (if supplied then s\<lparr>calls := calls s @ [c]\<rparr> else s)"

definition handleLoad :: "props \<Rightarrow> nat \<Rightarrow> state \<Rightarrow> state" where
  "handleLoad p e s = invoke (onLoad p) (OnLoad e) (s\<lparr>isLoaded := True\<rparr>)"

text \<open>
  \<open>handleError\<close> (lines 96-103) as the list of its statements, run in order. The
  intermediate states are kept apart (\<open>trace\<close>) so that what holds inside the handler
  can be told from what holds after it.
\<close>

definition setHasError :: "bool \<Rightarrow> state \<Rightarrow> state" where
  "setHasError b s = s\<lparr>hasError := b\<rparr>"

definition setImageSrc :: "src_val \<Rightarrow> state \<Rightarrow> state" where
  "setImageSrc v s = s\<lparr>imageSrc := v\<rparr>"

definition handleError_stmts :: "props \<Rightarrow> nat \<Rightarrow> (state \<Rightarrow> state) list" where
  "handleError_stmts p e =
     [setHasError True] @
     (case fallback p of
        None \<Rightarrow> []
      | Some fb \<Rightarrow> if fb \<noteq> [] then [setImageSrc (Str fb), setHasError False] else []) @
     [invoke (onError p) (OnError e)]"

fun exec :: "(state \<Rightarrow> state) list \<Rightarrow> state \<Rightarrow> state" where
  "exec [] s = s"
| "exec (f # fs) s = exec fs (f s)"

fun trace :: "(state \<Rightarrow> state) list \<Rightarrow> state \<Rightarrow> state list" where
  "trace [] s = []"
| "trace (f # fs) s = f s # trace fs (f s)"

definition handleError :: "props \<Rightarrow> nat \<Rightarrow> state \<Rightarrow> state" where
  "handleError p e s = exec (handleError_stmts p e) s"

text \<open>
  The error-clear effect (lines 105-110). Its dependency list is \<open>[previewUrl]\<close>: it runs
  when the value returned by \<open>useImagePreviewUrl\<close> has changed.
\<close>

definition previewEffect :: "state \<Rightarrow> state" where
  "previewEffect s = (if hasError s \<and> previewUrl s \<noteq> [] then s\<lparr>hasError := False\<rparr> else s)"

definition previewChange :: "string \<Rightarrow> state \<Rightarrow> state" where
  "previewChange u s = (if u = previewUrl s then s else previewEffect (s\<lparr>previewUrl := u\<rparr>))"

definition handleToggleOverlay :: "bool \<Rightarrow> state \<Rightarrow> state" where
  "handleToggleOverlay overlay s = s\<lparr>shouldShowOverlay := overlay\<rparr>"

subsection \<open>Render plan (lines 117-225)\<close>

datatype node =
    PlaceholderNode
  | GalleryShadowNode
  | SourceNode string string
  | ImgNode string
  | PictureNode "node list"
  | LoadingNode
  | ErrorNode
  | OverlayNode bool

text \<open>\<open>OverlayNode hidden\<close>: the overlay stays mounted, with the hidden class or not.\<close>

definition renderOverlay :: "props \<Rightarrow> state \<Rightarrow> node list" where
  "renderOverlay p s = (if \<not> overlayContent p then [] else [OverlayNode (\<not> shouldShowOverlay s)])"

definition renderPlaceholder :: "props \<Rightarrow> node list" where
  "renderPlaceholder p = (if \<not> placeholder p then [] else [PlaceholderNode])"

definition renderGalleryShadow :: "props \<Rightarrow> node list" where
  "renderGalleryShadow p = (if \<not> gallery p then [] else [GalleryShadowNode])"

definition renderImage :: "state \<Rightarrow> node" where
  "renderImage s = ImgNode (case imageSrc s of Str u \<Rightarrow> u | _ \<Rightarrow> previewUrl s)"

definition renderImageSrcset :: "(string \<times> string) list \<Rightarrow> props \<Rightarrow> state \<Rightarrow> node" where
  "renderImageSrcset entries p s =
     PictureNode (map (\<lambda>(type, url). SourceNode type url) entries @
                  (if truthy (src p) then [renderImage s] else []))"

text \<open>\<open>srcset && Object.keys(srcset).length\<close> (line 198).\<close>

definition srcsetMode :: "props \<Rightarrow> bool" where
  "srcsetMode p = (case srcset p of None \<Rightarrow> False | Some m \<Rightarrow> m \<noteq> [])"

definition imageRegion :: "props \<Rightarrow> state \<Rightarrow> node" where
  "imageRegion p s =
     (case srcset p of
        None \<Rightarrow> renderImage s
      | Some m \<Rightarrow> if m \<noteq> [] then renderImageSrcset m p s else renderImage s)"

definition render :: "props \<Rightarrow> state \<Rightarrow> node list" where
  "render p s =
     renderPlaceholder p @
     renderGalleryShadow p @
     (if \<not> (hasError s \<or> \<not> shouldLoad s)
      then imageRegion p s #
           (if \<not> (hasError s \<or> \<not> shouldLoad s) \<and> \<not> isLoaded s then [LoadingNode] else [])
      else []) @
     (if hasError s then [ErrorNode] else []) @
     renderOverlay p s"

fun is_content :: "node \<Rightarrow> bool" where
  "is_content (ImgNode _) = True"
| "is_content (PictureNode _) = True"
| "is_content _ = False"

definition content_shown :: "props \<Rightarrow> state \<Rightarrow> bool" where
  "content_shown p s = list_ex is_content (render p s)"

text \<open>
  The \<open>img\<close> element, which carries \<open>onLoad\<close> and \<open>onError\<close>, is in the document when
  the content region is rendered and, inside a \<open>picture\<close>, when \<open>props.src\<close> is truthy
  (line 169).
\<close>

definition img_mounted :: "component \<Rightarrow> bool" where
  "img_mounted c =
     (if hasError (cstate c) \<or> \<not> shouldLoad (cstate c) then False
      else if srcsetMode (cprops c) then truthy (src (cprops c)) else True)"

subsection \<open>Events\<close>

text \<open>
  \<open>Rerender l p\<close>: the parent delivers a new property object or locale, so the source
  resolution effect runs (dependencies \<open>[src, local, props]\<close>). \<open>Intersect\<close>: the
  observer registered when \<open>lazy\<close> holds reports the element (lines 79-93).
  \<open>ImgLoad\<close> and \<open>ImgError\<close>: the notifications of the \<open>img\<close> element.
  \<open>PreviewUrl u\<close>: \<open>useImagePreviewUrl\<close> returns \<open>u\<close>. \<open>MouseEnter\<close> and
  \<open>MouseLeave\<close>: pointer events on the wrapper, handled when the handlers are wired
  (lines 184-189).
\<close>

datatype event =
    Rerender locale_image props
  | Intersect
  | ImgLoad nat
  | ImgError nat
  | PreviewUrl string
  | MouseEnter
  | MouseLeave

definition mount :: "locale_image \<Rightarrow> props \<Rightarrow> string \<Rightarrow> component" where
  "mount l p u = \<lparr> cprops = p, clocal = l, cstate = sourceEffect l p (initial p u) \<rparr>"

fun step :: "event \<Rightarrow> component \<Rightarrow> component" where
  "step (Rerender l p) c =
     \<lparr> cprops = p, clocal = l, cstate = sourceEffect l p (cstate c) \<rparr>"
| "step Intersect c =
     (if lazy (cprops c) then c\<lparr>cstate := handleLoadImage (cstate c)\<rparr> else c)"
| "step (ImgLoad e) c =
     (if img_mounted c then c\<lparr>cstate := handleLoad (cprops c) e (cstate c)\<rparr> else c)"
| "step (ImgError e) c =
     (if img_mounted c then c\<lparr>cstate := handleError (cprops c) e (cstate c)\<rparr> else c)"
| "step (PreviewUrl u) c = c\<lparr>cstate := previewChange u (cstate c)\<rparr>"
| "step MouseEnter c =
     (if hasMouseEvent (cprops c) then c\<lparr>cstate := handleToggleOverlay True (cstate c)\<rparr> else c)"
| "step MouseLeave c =
     (if hasMouseEvent (cprops c) then c\<lparr>cstate := handleToggleOverlay False (cstate c)\<rparr> else c)"

fun run :: "event list \<Rightarrow> component \<Rightarrow> component" where
  "run [] c = c"
| "run (e # es) c = run es (step e c)"

fun is_pointer :: "event \<Rightarrow> bool" where
  "is_pointer MouseEnter = True"
| "is_pointer MouseLeave = True"
| "is_pointer _ = False"

fun rerender_hover :: "event \<Rightarrow> bool" where
  "rerender_hover (Rerender l p) = hasMouseEvent p"
| "rerender_hover _ = False"

subsection \<open>Example inputs\<close>

abbreviation no_hook :: locale_image where
  "no_hook \<equiv> \<lparr> replaceImageSrc = None \<rparr>"

abbreviation img_props :: "src_val \<Rightarrow> string option \<Rightarrow> props" where
  "img_props a fb \<equiv>
     \<lparr> src = a, fallback = fb, lazy = False, overlayTrigger = None, srcset = None,
       placeholder = False, gallery = False, overlayContent = False,
       onLoad = True, onError = True \<rparr>"

section \<open>Frame lemmas: which state cells each handler writes\<close>

lemma sourceEffect_keeps:
  "isLoaded (sourceEffect l p s) = isLoaded s"
  "hasError (sourceEffect l p s) = hasError s"
  "shouldLoad (sourceEffect l p s) = shouldLoad s"
  "shouldShowOverlay (sourceEffect l p s) = shouldShowOverlay s"
  "previewUrl (sourceEffect l p s) = previewUrl s"
  "calls (sourceEffect l p s) = calls s"
  by (simp_all add: sourceEffect_def split: option.split)

lemma handleError_eq:
  "handleError p e s =
     invoke (onError p) (OnError e)
       (case fallback p of
          None \<Rightarrow> s\<lparr>hasError := True\<rparr>
        | Some fb \<Rightarrow> if fb \<noteq> [] then s\<lparr>imageSrc := Str fb, hasError := False\<rparr>
                     else s\<lparr>hasError := True\<rparr>)"
  by (simp add: handleError_def handleError_stmts_def setHasError_def setImageSrc_def
      split: option.split)

lemma invoke_keeps:
  "isLoaded (invoke b c s) = isLoaded s"
  "hasError (invoke b c s) = hasError s"
  "shouldLoad (invoke b c s) = shouldLoad s"
  "shouldShowOverlay (invoke b c s) = shouldShowOverlay s"
  "previewUrl (invoke b c s) = previewUrl s"
  "imageSrc (invoke b c s) = imageSrc s"
  by (simp_all add: invoke_def)

lemma handleError_keeps:
  "isLoaded (handleError p e s) = isLoaded s"
  "shouldLoad (handleError p e s) = shouldLoad s"
  "shouldShowOverlay (handleError p e s) = shouldShowOverlay s"
  "previewUrl (handleError p e s) = previewUrl s"
  by (simp_all add: handleError_eq invoke_keeps split: option.split)

lemma handleLoad_keeps:
  "isLoaded (handleLoad p e s)"
  "hasError (handleLoad p e s) = hasError s"
  "shouldLoad (handleLoad p e s) = shouldLoad s"
  "shouldShowOverlay (handleLoad p e s) = shouldShowOverlay s"
  "previewUrl (handleLoad p e s) = previewUrl s"
  "imageSrc (handleLoad p e s) = imageSrc s"
  by (simp_all add: handleLoad_def invoke_keeps)

lemma previewChange_keeps:
  "isLoaded (previewChange u s) = isLoaded s"
  "shouldLoad (previewChange u s) = shouldLoad s"
  "shouldShowOverlay (previewChange u s) = shouldShowOverlay s"
  "imageSrc (previewChange u s) = imageSrc s"
  "calls (previewChange u s) = calls s"
  by (simp_all add: previewChange_def previewEffect_def)

lemma handleLoadImage_keeps:
  "isLoaded (handleLoadImage s) = isLoaded s"
  "hasError (handleLoadImage s) = hasError s"
  "shouldLoad (handleLoadImage s)"
  "shouldShowOverlay (handleLoadImage s) = shouldShowOverlay s"
  by (simp_all add: handleLoadImage_def)

lemma handleToggleOverlay_keeps:
  "isLoaded (handleToggleOverlay b s) = isLoaded s"
  "hasError (handleToggleOverlay b s) = hasError s"
  "shouldLoad (handleToggleOverlay b s) = shouldLoad s"
  "shouldShowOverlay (handleToggleOverlay b s) = b"
  by (simp_all add: handleToggleOverlay_def)

lemmas keeps = sourceEffect_keeps handleError_keeps handleLoad_keeps previewChange_keeps
  handleLoadImage_keeps handleToggleOverlay_keeps

lemma step_isLoaded: "isLoaded (cstate c) \<Longrightarrow> isLoaded (cstate (step e c))"
  by (cases e) (simp_all add: keeps)

lemma run_isLoaded: "isLoaded (cstate c) \<Longrightarrow> isLoaded (cstate (run es c))"
  by (induction es arbitrary: c) (simp_all add: step_isLoaded)

lemma step_shouldLoad: "shouldLoad (cstate c) \<Longrightarrow> shouldLoad (cstate (step e c))"
  by (cases e) (simp_all add: keeps)

lemma run_shouldLoad: "shouldLoad (cstate c) \<Longrightarrow> shouldLoad (cstate (run es c))"
  by (induction es arbitrary: c) (simp_all add: step_shouldLoad)

lemma step_shouldLoad_same:
  "Intersect \<noteq> e \<Longrightarrow> shouldLoad (cstate (step e c)) = shouldLoad (cstate c)"
  by (cases e) (simp_all add: keeps)

lemma run_shouldLoad_same:
  "Intersect \<notin> set es \<Longrightarrow> shouldLoad (cstate (run es c)) = shouldLoad (cstate c)"
  by (induction es arbitrary: c) (simp_all add: step_shouldLoad_same)

lemma loading_not_rendered: "isLoaded s \<Longrightarrow> LoadingNode \<notin> set (render p s)"
  by (simp add: render_def renderPlaceholder_def renderGalleryShadow_def renderOverlay_def
      imageRegion_def renderImage_def renderImageSrcset_def split: option.split)

section \<open>Render lemmas\<close>

lemmas machine_defs =
  mount_def initial_def sourceEffect_def sourceEffect_assign_def resolve_def
  img_mounted_def srcsetMode_def handleLoad_def invoke_def previewChange_def
  previewEffect_def handleError_eq handleLoadImage_def handleToggleOverlay_def
  hasMouseEvent_def loadState_def

lemma imageRegion_content: "is_content (imageRegion p s)"
  and imageRegion_not_loading: "imageRegion p s \<noteq> LoadingNode"
  and imageRegion_not_error: "imageRegion p s \<noteq> ErrorNode"
  by (simp_all add: imageRegion_def renderImage_def renderImageSrcset_def split: option.split)

lemma overlay_nodes:
  "LoadingNode \<notin> set (renderOverlay p s)" "ErrorNode \<notin> set (renderOverlay p s)"
  "\<not> list_ex is_content (renderOverlay p s)"
  "LoadingNode \<notin> set (renderPlaceholder p)" "ErrorNode \<notin> set (renderPlaceholder p)"
  "\<not> list_ex is_content (renderPlaceholder p)"
  "LoadingNode \<notin> set (renderGalleryShadow p)" "ErrorNode \<notin> set (renderGalleryShadow p)"
  "\<not> list_ex is_content (renderGalleryShadow p)"
  by (simp_all add: renderOverlay_def renderPlaceholder_def renderGalleryShadow_def)

lemma content_shown_iff: "content_shown p s = (\<not> hasError s \<and> shouldLoad s)"
  by (simp add: content_shown_def render_def overlay_nodes imageRegion_content)

lemma loading_rendered_iff:
  "(LoadingNode \<in> set (render p s)) = (\<not> hasError s \<and> shouldLoad s \<and> \<not> isLoaded s)"
  using imageRegion_not_loading [of p s] by (auto simp add: render_def overlay_nodes)

lemma error_rendered_iff: "(ErrorNode \<in> set (render p s)) = hasError s"
  using imageRegion_not_error [of p s] by (auto simp add: render_def overlay_nodes)

section \<open>The loaded flag\<close>

text \<open>
  Claim C10. The loaded flag is monotone: once \<open>isLoaded\<close> holds it holds after every
  sequence of events (new properties, rewrite-hook recomputation, fallback substitution,
  error notifications, ...), since no handler assigns it \<open>false\<close>; so the loading
  indicator is never rendered again after the first successful load, also for a source
  changed afterwards.
\<close>

theorem isLoaded_monotone:
  "isLoaded (cstate c) \<Longrightarrow>
     isLoaded (cstate (run es c)) \<and>
     LoadingNode \<notin> set (render (cprops (run es c)) (cstate (run es c)))"
  by (simp add: run_isLoaded loading_rendered_iff)

theorem isLoaded_monotone_witness:
  "isLoaded (cstate (step (ImgLoad 1) (mount no_hook (img_props (Str ''a.png'') None) []))) \<and>
   imageSrc (cstate (run [Rerender no_hook (img_props (Str ''b.png'') None), PreviewUrl ''b.png'', ImgError 2]
      (step (ImgLoad 1) (mount no_hook (img_props (Str ''a.png'') None) [])))) = Str ''b.png'' \<and>
   isLoaded (cstate (run [Rerender no_hook (img_props (Str ''b.png'') None), PreviewUrl ''b.png'', ImgError 2]
      (step (ImgLoad 1) (mount no_hook (img_props (Str ''a.png'') None) [])))) \<and>
   LoadingNode \<notin> set (render
     (cprops (run [Rerender no_hook (img_props (Str ''b.png'') None), PreviewUrl ''b.png'', ImgError 2]
      (step (ImgLoad 1) (mount no_hook (img_props (Str ''a.png'') None) []))))
     (cstate (run [Rerender no_hook (img_props (Str ''b.png'') None), PreviewUrl ''b.png'', ImgError 2]
      (step (ImgLoad 1) (mount no_hook (img_props (Str ''a.png'') None) [])))))"
proof -
  have h: "isLoaded (cstate (step (ImgLoad 1) (mount no_hook (img_props (Str ''a.png'') None) [])))"
    by (simp add: mount_def initial_def sourceEffect_def sourceEffect_assign_def resolve_def
        img_mounted_def srcsetMode_def handleLoad_def invoke_def)
  have src: "imageSrc (cstate (run [Rerender no_hook (img_props (Str ''b.png'') None), PreviewUrl ''b.png'', ImgError 2]
      (step (ImgLoad 1) (mount no_hook (img_props (Str ''a.png'') None) [])))) = Str ''b.png''"
    by (simp add: mount_def initial_def sourceEffect_def sourceEffect_assign_def resolve_def
        img_mounted_def srcsetMode_def handleLoad_def invoke_def previewChange_def
        previewEffect_def handleError_eq)
  show ?thesis
    using h src isLoaded_monotone [OF h,
        of "[Rerender no_hook (img_props (Str ''b.png'') None), PreviewUrl ''b.png'', ImgError 2]"]
    by simp
qed

section \<open>Lemmas on runs\<close>

lemma step_overlay_same:
  "\<not> is_pointer e \<Longrightarrow> shouldShowOverlay (cstate (step e c)) = shouldShowOverlay (cstate c)"
  by (cases e) (simp_all add: keeps)

lemma run_overlay_same:
  "\<not> list_ex is_pointer es \<Longrightarrow>
     shouldShowOverlay (cstate (run es c)) = shouldShowOverlay (cstate c)"
  by (induction es arbitrary: c) (simp_all add: step_overlay_same)

lemma step_unwired:
  "\<not> rerender_hover e \<Longrightarrow> \<not> hasMouseEvent (cprops c) \<Longrightarrow> shouldShowOverlay (cstate c) \<Longrightarrow>
     \<not> hasMouseEvent (cprops (step e c)) \<and> shouldShowOverlay (cstate (step e c))"
  by (cases e) (simp_all add: keeps)

lemma run_unwired:
  "\<not> list_ex rerender_hover es \<Longrightarrow> \<not> hasMouseEvent (cprops c) \<Longrightarrow>
     shouldShowOverlay (cstate c) \<Longrightarrow> shouldShowOverlay (cstate (run es c))"
proof (induction es arbitrary: c)
  case Nil
  then show ?case by simp
next
  case (Cons e es)
  from Cons.prems have "\<not> rerender_hover e" and rest: "\<not> list_ex rerender_hover es"
    by simp_all
  with Cons.prems have "\<not> hasMouseEvent (cprops (step e c)) \<and> shouldShowOverlay (cstate (step e c))"
    by (simp add: step_unwired)
  with rest show ?case by (simp add: Cons.IH)
qed

lemma mount_cells:
  "cprops (mount l p u) = p"
  "shouldLoad (cstate (mount l p u)) = (\<not> lazy p)"
  "shouldShowOverlay (cstate (mount l p u)) = (\<not> hasMouseEvent p)"
  "isLoaded (cstate (mount l p u)) = False"
  "hasError (cstate (mount l p u)) = False"
  "calls (cstate (mount l p u)) = []"
  "imageSrc (cstate (mount l p u)) = resolve l p"
  by (auto simp add: mount_def keeps initial_def sourceEffect_def sourceEffect_assign_def
      Let_def split: option.split if_splits)

section \<open>Source resolver\<close>

lemma sourceEffect_eq: "sourceEffect l p s = s\<lparr>imageSrc := resolve l p\<rparr>"
  by (simp add: sourceEffect_def sourceEffect_assign_def Let_def)

text \<open>
  Claim C4. When the rewrite hook \<open>local.replaceImageSrc\<close> is a function, the resolved
  source is its string result on the property object, otherwise the raw \<open>src\<close>
  verbatim; after the effect has run (at mount and at every new property object or
  locale) \<open>imageSrc\<close> is that resolved value and no other state cell has changed.
  When the value computed equals the \<open>imageSrc\<close> held and that value is truthy, the
  effect returns without assigning; a recomputation that gives the value held changes
  no state cell.
\<close>

theorem source_resolver:
  "(replaceImageSrc l = Some f \<longrightarrow> resolve l p = Str (f p)) \<and>
   (replaceImageSrc l = None \<longrightarrow> resolve l p = src p) \<and>
   sourceEffect_assign l p s =
     (if resolve l p = imageSrc s \<and> truthy (imageSrc s) then None else Some (resolve l p)) \<and>
   (sourceEffect_assign l p s = None \<longrightarrow> sourceEffect l p s = s) \<and>
   (resolve l p = imageSrc (cstate c) \<longrightarrow> cstate (step (Rerender l p) c) = cstate c) \<and>
   sourceEffect l p s = s\<lparr>imageSrc := resolve l p\<rparr> \<and>
   imageSrc (sourceEffect l p s) = resolve l p \<and>
   (replaceImageSrc l = Some f \<longrightarrow> imageSrc (sourceEffect l p s) = Str (f p)) \<and>
   (replaceImageSrc l = None \<longrightarrow> imageSrc (sourceEffect l p s) = src p) \<and>
   step (Rerender l p) c =
     \<lparr> cprops = p, clocal = l, cstate = (cstate c)\<lparr>imageSrc := resolve l p\<rparr> \<rparr> \<and>
   imageSrc (cstate (step (Rerender l p) c)) = resolve l p \<and>
   cstate (mount l p u) = (initial p u)\<lparr>imageSrc := resolve l p\<rparr> \<and>
   imageSrc (cstate (mount l p u)) = resolve l p"
proof -
  have r: "(replaceImageSrc l = Some f \<longrightarrow> resolve l p = Str (f p)) \<and>
      (replaceImageSrc l = None \<longrightarrow> resolve l p = src p)"
    by (simp add: resolve_def)
  have a: "sourceEffect_assign l p s =
      (if resolve l p = imageSrc s \<and> truthy (imageSrc s) then None else Some (resolve l p))"
    by (simp add: sourceEffect_assign_def Let_def)
  have n: "sourceEffect_assign l p s = None \<longrightarrow> sourceEffect l p s = s"
    by (simp add: sourceEffect_def)
  have k: "resolve l p = imageSrc (cstate c) \<longrightarrow> cstate (step (Rerender l p) c) = cstate c"
    by (auto simp add: sourceEffect_eq)
  have e: "sourceEffect l p s = s\<lparr>imageSrc := resolve l p\<rparr>"
    by (rule sourceEffect_eq)
  have i: "imageSrc (sourceEffect l p s) = resolve l p"
    by (simp add: sourceEffect_eq)
  have h: "(replaceImageSrc l = Some f \<longrightarrow> imageSrc (sourceEffect l p s) = Str (f p)) \<and>
      (replaceImageSrc l = None \<longrightarrow> imageSrc (sourceEffect l p s) = src p)"
    using r by (simp add: sourceEffect_eq)
  have st: "step (Rerender l p) c =
      \<lparr> cprops = p, clocal = l, cstate = (cstate c)\<lparr>imageSrc := resolve l p\<rparr> \<rparr>"
    by (simp add: sourceEffect_eq)
  have si: "imageSrc (cstate (step (Rerender l p) c)) = resolve l p"
    by (simp add: sourceEffect_eq)
  have m: "cstate (mount l p u) = (initial p u)\<lparr>imageSrc := resolve l p\<rparr>"
    by (simp add: mount_def sourceEffect_eq)
  have mi: "imageSrc (cstate (mount l p u)) = resolve l p"
    by (simp add: mount_def sourceEffect_eq)
  from r a n k e i h st si m mi show ?thesis by blast
qed

theorem source_resolver_witness:
  "resolve \<lparr> replaceImageSrc = Some (\<lambda>p. ''cdn/'' @ (case src p of Str u \<Rightarrow> u | _ \<Rightarrow> [])) \<rparr>
      (img_props (Str ''a.png'') None) = Str ''cdn/a.png'' \<and>
   resolve no_hook (img_props (File 7) None) = File 7 \<and>
   sourceEffect_assign no_hook (img_props (Str ''a.png'') None)
      (cstate (step (ImgLoad 1) (mount no_hook (img_props (Str ''a.png'') None) []))) = None \<and>
   cstate (step (Rerender no_hook (img_props (Str ''a.png'') None))
      (step (ImgLoad 1) (mount no_hook (img_props (Str ''a.png'') None) [])))
     = cstate (step (ImgLoad 1) (mount no_hook (img_props (Str ''a.png'') None) [])) \<and>
   imageSrc (cstate (step
      (Rerender \<lparr> replaceImageSrc = Some (\<lambda>p. ''cdn/'' @ (case src p of Str u \<Rightarrow> u | _ \<Rightarrow> [])) \<rparr>
         (img_props (Str ''a.png'') None))
      (step (ImgLoad 1) (mount no_hook (img_props (Str ''a.png'') None) []))))
     = Str ''cdn/a.png'' \<and>
   imageSrc (cstate (step (Rerender no_hook (img_props (File 7) None))
      (step (ImgLoad 1) (mount no_hook (img_props (Str ''a.png'') None) [])))) = File 7 \<and>
   imageSrc (cstate (mount
      \<lparr> replaceImageSrc = Some (\<lambda>p. ''cdn/'' @ (case src p of Str u \<Rightarrow> u | _ \<Rightarrow> [])) \<rparr>
      (img_props (Str ''a.png'') None) [])) = Str ''cdn/a.png''"
proof -
  let ?l = "\<lparr> replaceImageSrc = Some (\<lambda>p. ''cdn/'' @ (case src p of Str u \<Rightarrow> u | _ \<Rightarrow> [])) \<rparr>"
  let ?a = "img_props (Str ''a.png'') None"
  let ?c = "step (ImgLoad 1) (mount no_hook ?a [])"
  have same: "resolve no_hook ?a = imageSrc (cstate ?c)"
    by (simp add: machine_defs)
  have ok: "truthy (imageSrc (cstate ?c))"
    by (simp add: machine_defs)
  note a = source_resolver [of ?l "\<lambda>p. ''cdn/'' @ (case src p of Str u \<Rightarrow> u | _ \<Rightarrow> [])" ?a
      "cstate ?c" ?c "[]"]
  note b = source_resolver [of no_hook undefined "img_props (File 7) None" "cstate ?c" ?c "[]"]
  note c = source_resolver [of no_hook undefined ?a "cstate ?c" ?c "[]"]
  have 1: "resolve ?l ?a = Str ''cdn/a.png''" using a by simp
  have 2: "resolve no_hook (img_props (File 7) None) = File 7" using b by simp
  have 3: "sourceEffect_assign no_hook ?a (cstate ?c) = None" using c same ok by simp
  have 4: "cstate (step (Rerender no_hook ?a) ?c) = cstate ?c" using c same by blast
  from a have "imageSrc (cstate (step (Rerender ?l ?a) ?c)) = resolve ?l ?a" by blast
  with 1 have 5: "imageSrc (cstate (step (Rerender ?l ?a) ?c)) = Str ''cdn/a.png''" by simp
  from b have "imageSrc (cstate (step (Rerender no_hook (img_props (File 7) None)) ?c))
      = resolve no_hook (img_props (File 7) None)" by blast
  with 2 have 6: "imageSrc (cstate (step (Rerender no_hook (img_props (File 7) None)) ?c)) = File 7"
    by simp
  from a have "imageSrc (cstate (mount ?l ?a [])) = resolve ?l ?a" by blast
  with 1 have 7: "imageSrc (cstate (mount ?l ?a [])) = Str ''cdn/a.png''" by simp
  from 1 2 3 4 5 6 7 show ?thesis by blast
qed

section \<open>Visibility gate\<close>

text \<open>
  Claim C5. With \<open>lazy = false\<close>, \<open>shouldLoad\<close> holds at creation. With
  \<open>lazy = true\<close> it starts false, stays false while no intersection is notified, and
  holds after the intersection notification. Once it holds it holds after every sequence
  of events.
\<close>

theorem visibility_gate:
  "(\<not> lazy p \<longrightarrow> shouldLoad (cstate (mount l p u))) \<and>
   (lazy p \<longrightarrow> \<not> shouldLoad (cstate (mount l p u)) \<and>
               shouldLoad (cstate (step Intersect (mount l p u)))) \<and>
   (Intersect \<notin> set es \<longrightarrow> shouldLoad (cstate (run es c)) = shouldLoad (cstate c)) \<and>
   (lazy (cprops c) \<longrightarrow> shouldLoad (cstate (step Intersect c))) \<and>
   (shouldLoad (cstate c) \<longrightarrow> shouldLoad (cstate (run es' c)))"
  by (simp add: mount_cells run_shouldLoad_same run_shouldLoad handleLoadImage_keeps)

theorem visibility_gate_witness:
  "shouldLoad (cstate (mount no_hook (img_props (Str ''a.png'') None) [])) \<and>
   \<not> shouldLoad (cstate (mount no_hook ((img_props (Str ''a.png'') None)\<lparr>lazy := True\<rparr>) [])) \<and>
   \<not> shouldLoad (cstate (run [PreviewUrl ''a.png'', MouseEnter]
        (mount no_hook ((img_props (Str ''a.png'') None)\<lparr>lazy := True\<rparr>) []))) \<and>
   shouldLoad (cstate (step Intersect
        (mount no_hook ((img_props (Str ''a.png'') None)\<lparr>lazy := True\<rparr>) []))) \<and>
   shouldLoad (cstate (run [ImgError 1, Rerender no_hook ((img_props Undefined None)\<lparr>lazy := True\<rparr>), Intersect]
        (step Intersect (mount no_hook ((img_props (Str ''a.png'') None)\<lparr>lazy := True\<rparr>) []))))"
  using
    visibility_gate [of "img_props (Str ''a.png'') None" no_hook "[]" "[]"
      "mount no_hook (img_props (Str ''a.png'') None) []" "[]"]
    visibility_gate [of "(img_props (Str ''a.png'') None)\<lparr>lazy := True\<rparr>" no_hook "[]"
      "[PreviewUrl ''a.png'', MouseEnter]"
      "mount no_hook ((img_props (Str ''a.png'') None)\<lparr>lazy := True\<rparr>) []" "[]"]
    visibility_gate [of "(img_props (Str ''a.png'') None)\<lparr>lazy := True\<rparr>" no_hook "[]" "[]"
      "step Intersect (mount no_hook ((img_props (Str ''a.png'') None)\<lparr>lazy := True\<rparr>) [])"
      "[ImgError 1, Rerender no_hook ((img_props Undefined None)\<lparr>lazy := True\<rparr>), Intersect]"]
  by (simp add: mount_cells)

section \<open>Rendering derivation\<close>

text \<open>
  Claim C6. In every state the content region (the \<open>img\<close> or the \<open>picture\<close>) is
  rendered iff the state is not ERRORED and \<open>shouldLoad\<close> holds; the loading indicator
  is rendered iff the content region is rendered and the state is not LOADED; the error
  region is rendered iff the state is ERRORED; the error region and the loading indicator
  are never rendered together.
\<close>

theorem render_derivation:
  "content_shown p s = (loadState s \<noteq> ERRORED \<and> shouldLoad s) \<and>
   (LoadingNode \<in> set (render p s)) = (content_shown p s \<and> loadState s \<noteq> LOADED) \<and>
   (ErrorNode \<in> set (render p s)) = (loadState s = ERRORED) \<and>
   \<not> (ErrorNode \<in> set (render p s) \<and> LoadingNode \<in> set (render p s))"
  by (auto simp add: content_shown_iff loading_rendered_iff error_rendered_iff loadState_def)

theorem render_derivation_witness:
  "render ((img_props (Str ''a.png'') None)\<lparr>placeholder := True\<rparr>)
      (cstate (mount no_hook ((img_props (Str ''a.png'') None)\<lparr>placeholder := True\<rparr>) []))
     = [PlaceholderNode, ImgNode ''a.png'', LoadingNode] \<and>
   content_shown ((img_props (Str ''a.png'') None)\<lparr>placeholder := True\<rparr>)
      (cstate (mount no_hook ((img_props (Str ''a.png'') None)\<lparr>placeholder := True\<rparr>) [])) \<and>
   ErrorNode \<notin> set (render ((img_props (Str ''a.png'') None)\<lparr>placeholder := True\<rparr>)
      (cstate (mount no_hook ((img_props (Str ''a.png'') None)\<lparr>placeholder := True\<rparr>) [])))"
  using render_derivation [of "(img_props (Str ''a.png'') None)\<lparr>placeholder := True\<rparr>"
      "cstate (mount no_hook ((img_props (Str ''a.png'') None)\<lparr>placeholder := True\<rparr>) [])"]
  by (simp add: machine_defs render_def renderPlaceholder_def renderGalleryShadow_def
      renderOverlay_def imageRegion_def renderImage_def)

section \<open>Overlay\<close>

text \<open>
  Claim C7. With \<open>overlayTrigger = hover\<close>, \<open>shouldShowOverlay\<close> is false at creation,
  true after pointer-enter, false after pointer-leave, and no other event changes it (so
  it is true between enter and leave). With \<open>overlayTrigger\<close> \<open>always\<close> or unset (and
  no later properties asking for \<open>hover\<close>) it is true after every sequence of events,
  and pointer events are not handled: they leave the component as it is.
\<close>

theorem overlay_semantics:
  "(overlayTrigger p = Some Hover \<longrightarrow> \<not> shouldShowOverlay (cstate (mount l p u))) \<and>
   (hasMouseEvent (cprops c) \<longrightarrow>
      shouldShowOverlay (cstate (step MouseEnter c)) \<and>
      \<not> shouldShowOverlay (cstate (step MouseLeave c))) \<and>
   (\<not> list_ex is_pointer es \<longrightarrow>
      shouldShowOverlay (cstate (run es c)) = shouldShowOverlay (cstate c)) \<and>
   ((overlayTrigger p = Some Always \<or> overlayTrigger p = None) \<and> \<not> list_ex rerender_hover es' \<longrightarrow>
      shouldShowOverlay (cstate (run es' (mount l p u)))) \<and>
   (\<not> hasMouseEvent (cprops c) \<longrightarrow> step MouseEnter c = c \<and> step MouseLeave c = c)"
proof -
  have "shouldShowOverlay (cstate (run es' (mount l p u)))"
    if "overlayTrigger p = Some Always \<or> overlayTrigger p = None" "\<not> list_ex rerender_hover es'"
  proof -
    from that(1) have "\<not> hasMouseEvent p" by (auto simp add: hasMouseEvent_def)
    then show ?thesis using that(2) by (simp add: run_unwired mount_cells)
  qed
  then show ?thesis
    by (simp add: mount_cells run_overlay_same handleToggleOverlay_keeps hasMouseEvent_def)
qed

theorem overlay_semantics_witness:
  "\<not> shouldShowOverlay (cstate (mount no_hook
       ((img_props (Str ''a.png'') None)\<lparr>overlayTrigger := Some Hover\<rparr>) [])) \<and>
   shouldShowOverlay (cstate (run [MouseEnter, ImgLoad 1, PreviewUrl ''a.png''] (mount no_hook
       ((img_props (Str ''a.png'') None)\<lparr>overlayTrigger := Some Hover\<rparr>) []))) \<and>
   \<not> shouldShowOverlay (cstate (run [MouseEnter, ImgLoad 1, MouseLeave] (mount no_hook
       ((img_props (Str ''a.png'') None)\<lparr>overlayTrigger := Some Hover\<rparr>) []))) \<and>
   shouldShowOverlay (cstate (run [MouseEnter, ImgLoad 1, MouseLeave, MouseLeave]
       (mount no_hook (img_props (Str ''a.png'') None) []))) \<and>
   step MouseLeave (mount no_hook (img_props (Str ''a.png'') None) [])
     = mount no_hook (img_props (Str ''a.png'') None) []"
proof -
  let ?h = "(img_props (Str ''a.png'') None)\<lparr>overlayTrigger := Some Hover\<rparr>"
  let ?a = "img_props (Str ''a.png'') None"
  have wired: "hasMouseEvent (cprops (mount no_hook ?h []))"
    by (simp add: mount_cells hasMouseEvent_def)
  have unwired: "\<not> hasMouseEvent (cprops (mount no_hook ?a []))"
    by (simp add: mount_cells hasMouseEvent_def)
  have quiet: "\<not> list_ex is_pointer [ImgLoad 1, PreviewUrl ''a.png'']"
    and never: "\<not> list_ex rerender_hover [MouseEnter, ImgLoad 1, MouseLeave, MouseLeave]"
    by simp_all
  note a = overlay_semantics [of ?h no_hook "[]" "mount no_hook ?h []" "[]" "[]"]
  note b = overlay_semantics [of ?h no_hook "[]" "step MouseEnter (mount no_hook ?h [])"
      "[ImgLoad 1, PreviewUrl ''a.png'']" "[]"]
  note c = overlay_semantics [of ?h no_hook "[]" "run [MouseEnter, ImgLoad 1] (mount no_hook ?h [])"
      "[]" "[]"]
  note d = overlay_semantics [of ?a no_hook "[]" "mount no_hook ?a []" "[]"
      "[MouseEnter, ImgLoad 1, MouseLeave, MouseLeave]"]
  have 1: "\<not> shouldShowOverlay (cstate (mount no_hook ?h []))"
    using a by simp
  have e: "shouldShowOverlay (cstate (step MouseEnter (mount no_hook ?h [])))"
    using a wired by blast
  have "shouldShowOverlay (cstate (run [ImgLoad 1, PreviewUrl ''a.png'']
      (step MouseEnter (mount no_hook ?h [])))) =
      shouldShowOverlay (cstate (step MouseEnter (mount no_hook ?h [])))"
    using b quiet by blast
  with e have 2: "shouldShowOverlay (cstate (run [MouseEnter, ImgLoad 1, PreviewUrl ''a.png'']
      (mount no_hook ?h [])))"
    unfolding run.simps by blast
  have w3: "hasMouseEvent (cprops (run [MouseEnter, ImgLoad 1] (mount no_hook ?h [])))"
    by (simp add: machine_defs)
  have "\<not> shouldShowOverlay (cstate (step MouseLeave
      (run [MouseEnter, ImgLoad 1] (mount no_hook ?h []))))"
    using c w3 by blast
  then have 3: "\<not> shouldShowOverlay (cstate (run [MouseEnter, ImgLoad 1, MouseLeave]
      (mount no_hook ?h [])))"
    unfolding run.simps by blast
  have 4: "shouldShowOverlay (cstate (run [MouseEnter, ImgLoad 1, MouseLeave, MouseLeave]
      (mount no_hook ?a [])))"
    using d never by simp
  have 5: "step MouseLeave (mount no_hook ?a []) = mount no_hook ?a []"
    using d unwired by blast
  from 1 2 3 4 5 show ?thesis by blast
qed

section \<open>Load state machine\<close>

lemma trace_empty: "(trace fs s = []) = (fs = [])"
  by (cases fs) simp_all

lemma exec_last_trace: "fs \<noteq> [] \<Longrightarrow> exec fs s = last (trace fs s)"
  by (induction fs arbitrary: s) (auto simp add: trace_empty)

lemma handleError_stmts_nonempty: "handleError_stmts p e \<noteq> []"
  by (simp add: handleError_stmts_def)

lemma handleError_last_trace: "handleError p e s = last (trace (handleError_stmts p e) s)"
  by (simp add: handleError_def exec_last_trace handleError_stmts_nonempty)

lemma handleError_fallback:
  "fallback p = Some B \<Longrightarrow> B \<noteq> [] \<Longrightarrow>
     handleError p e s =
       invoke (onError p) (OnError e) (s\<lparr>imageSrc := Str B, hasError := False\<rparr>)"
  by (simp add: handleError_eq)

lemma run_append: "run (xs @ ys) c = run ys (run xs c)"
  by (induction xs arbitrary: c) simp_all

lemma run_rerenders_loadState:
  "loadState (cstate (run (map (\<lambda>(l, p). Rerender l p) cs) c)) = loadState (cstate c)"
  by (induction cs arbitrary: c) (auto simp add: loadState_def keeps)

lemma step_error_fallback:
  assumes "img_mounted c" and "fallback (cprops c) = Some B" and "B \<noteq> []"
  shows "img_mounted (step (ImgError e) c)"
    and "cprops (step (ImgError e) c) = cprops c"
    and "imageSrc (cstate (step (ImgError e) c)) = Str B"
    and "\<not> hasError (cstate (step (ImgError e) c))"
    and "calls (cstate (step (ImgError e) c)) =
           calls (cstate c) @ (if onError (cprops c) then [OnError e] else [])"
  using assms
  by (simp_all add: handleError_fallback invoke_def img_mounted_def split: if_splits)

lemma run_errors_fallback:
  assumes "img_mounted c" and "fallback (cprops c) = Some B" and "B \<noteq> []"
    and "imageSrc (cstate c) = Str B" and "\<not> hasError (cstate c)"
  shows "img_mounted (run (map ImgError es) c) \<and>
     cprops (run (map ImgError es) c) = cprops c \<and>
     imageSrc (cstate (run (map ImgError es) c)) = Str B \<and>
     \<not> hasError (cstate (run (map ImgError es) c)) \<and>
     calls (cstate (run (map ImgError es) c)) =
       calls (cstate c) @ (if onError (cprops c) then map OnError es else [])"
proof (induction es rule: rev_induct)
  case Nil
  from assms show ?case by simp
next
  case (snoc e es)
  define d where "d = run (map ImgError es) c"
  from snoc have d: "img_mounted d" "cprops d = cprops c" "imageSrc (cstate d) = Str B"
    "calls (cstate d) = calls (cstate c) @ (if onError (cprops c) then map OnError es else [])"
    by (simp_all add: d_def)
  from d(2) assms(2) have fb: "fallback (cprops d) = Some B" by simp
  have r: "run (map ImgError (es @ [e])) c = step (ImgError e) d"
    by (simp add: run_append d_def)
  show ?case
    unfolding r
    using step_error_fallback [OF d(1) fb assms(3), of e] d(2,4)
    by simp
qed

text \<open>
  Claim C1, as amended. When the source-resolution effect assigns a new \<open>imageSrc\<close>
  (the no-op guard does not suppress it), it assigns \<open>imageSrc\<close> and nothing else:
  \<open>isLoaded\<close> and \<open>hasError\<close> keep their values, so the load state right after the
  change is the load state before it, and so it is after every sequence of source changes. (As stated, with both flags cleared by the source
  change, the claim fails: see the counterexample, where a source is changed after a
  successful load, and after a failure.)
\<close>

theorem source_change_keeps_flags:
  "sourceEffect_assign l p s = Some v \<Longrightarrow>
     sourceEffect l p s = s\<lparr>imageSrc := v\<rparr> \<and>
     isLoaded (sourceEffect l p s) = isLoaded s \<and>
     hasError (sourceEffect l p s) = hasError s \<and>
     loadState (sourceEffect l p s) = loadState s \<and>
     loadState (cstate (run (map (\<lambda>(l, p). Rerender l p) cs) c)) = loadState (cstate c)"
proof -
  assume a: "sourceEffect_assign l p s = Some v"
  then have "sourceEffect l p s = s\<lparr>imageSrc := v\<rparr>"
    by (simp add: sourceEffect_def)
  moreover have "loadState (sourceEffect l p s) = loadState s"
    by (simp add: loadState_def keeps)
  ultimately show ?thesis
    by (simp add: keeps run_rerenders_loadState)
qed

theorem source_change_keeps_flags_witness:
  "sourceEffect_assign no_hook (img_props (Str ''b.png'') None)
      (cstate (mount no_hook (img_props (Str ''a.png'') None) [])) = Some (Str ''b.png'') \<and>
   imageSrc (sourceEffect no_hook (img_props (Str ''b.png'') None)
      (cstate (mount no_hook (img_props (Str ''a.png'') None) []))) = Str ''b.png'' \<and>
   loadState (sourceEffect no_hook (img_props (Str ''b.png'') None)
      (cstate (mount no_hook (img_props (Str ''a.png'') None) []))) = NOT_STARTED \<and>
   loadState (cstate (run [Rerender no_hook (img_props (Str ''b.png'') None),
        Rerender no_hook (img_props (Str ''c.png'') None)]
      (step (ImgLoad 1) (mount no_hook (img_props (Str ''a.png'') None) [])))) = LOADED"
proof -
  have h: "sourceEffect_assign no_hook (img_props (Str ''b.png'') None)
      (cstate (mount no_hook (img_props (Str ''a.png'') None) [])) = Some (Str ''b.png'')"
    by (simp add: machine_defs)
  have n: "loadState (cstate (mount no_hook (img_props (Str ''a.png'') None) [])) = NOT_STARTED"
    by (simp add: machine_defs)
  have d: "loadState (cstate (step (ImgLoad 1)
      (mount no_hook (img_props (Str ''a.png'') None) []))) = LOADED"
    by (simp add: machine_defs)
  note t = source_change_keeps_flags [OF h,
      of "[(no_hook, img_props (Str ''b.png'') None), (no_hook, img_props (Str ''c.png'') None)]"
         "step (ImgLoad 1) (mount no_hook (img_props (Str ''a.png'') None) [])"]
  from t have eq: "sourceEffect no_hook (img_props (Str ''b.png'') None)
      (cstate (mount no_hook (img_props (Str ''a.png'') None) [])) =
      (cstate (mount no_hook (img_props (Str ''a.png'') None) []))\<lparr>imageSrc := Str ''b.png''\<rparr>"
    by blast
  have i: "imageSrc (sourceEffect no_hook (img_props (Str ''b.png'') None)
      (cstate (mount no_hook (img_props (Str ''a.png'') None) []))) = Str ''b.png''"
    by (simp add: eq)
  from t n have k: "loadState (sourceEffect no_hook (img_props (Str ''b.png'') None)
      (cstate (mount no_hook (img_props (Str ''a.png'') None) []))) = NOT_STARTED"
    by metis
  from t have "loadState (cstate (run (map (\<lambda>(l, p). Rerender l p)
        [(no_hook, img_props (Str ''b.png'') None), (no_hook, img_props (Str ''c.png'') None)])
      (step (ImgLoad 1) (mount no_hook (img_props (Str ''a.png'') None) [])))) =
      loadState (cstate (step (ImgLoad 1) (mount no_hook (img_props (Str ''a.png'') None) [])))"
    by blast
  then have "loadState (cstate (run [Rerender no_hook (img_props (Str ''b.png'') None),
        Rerender no_hook (img_props (Str ''c.png'') None)]
      (step (ImgLoad 1) (mount no_hook (img_props (Str ''a.png'') None) [])))) = LOADED"
    unfolding d by (simp only: list.map prod.case)
  with h i k show ?thesis by blast
qed

theorem source_change_reset_counterexample:
  "imageSrc (cstate (step (ImgLoad 1) (mount no_hook (img_props (Str ''a.png'') None) [])))
     = Str ''a.png'' \<and>
   sourceEffect_assign no_hook (img_props (Str ''b.png'') None)
     (cstate (step (ImgLoad 1) (mount no_hook (img_props (Str ''a.png'') None) [])))
     = Some (Str ''b.png'') \<and>
   imageSrc (cstate (run [ImgLoad 1, Rerender no_hook (img_props (Str ''b.png'') None)]
     (mount no_hook (img_props (Str ''a.png'') None) []))) = Str ''b.png'' \<and>
   isLoaded (cstate (run [ImgLoad 1, Rerender no_hook (img_props (Str ''b.png'') None)]
     (mount no_hook (img_props (Str ''a.png'') None) []))) \<and>
   loadState (cstate (run [ImgLoad 1, Rerender no_hook (img_props (Str ''b.png'') None)]
     (mount no_hook (img_props (Str ''a.png'') None) []))) \<noteq> NOT_STARTED \<and>
   loadState (cstate (run [ImgLoad 1, Rerender no_hook (img_props (Str ''b.png'') None),
       PreviewUrl ''b.png'']
     (mount no_hook (img_props (Str ''a.png'') None) []))) = LOADED \<and>
   hasError (cstate (run [ImgError 1, Rerender no_hook (img_props (Str ''b.png'') None)]
     (mount no_hook (img_props (Str ''a.png'') None) []))) \<and>
   imageSrc (cstate (run [ImgError 1, Rerender no_hook (img_props (Str ''b.png'') None)]
     (mount no_hook (img_props (Str ''a.png'') None) []))) = Str ''b.png'' \<and>
   loadState (cstate (run [ImgError 1, Rerender no_hook (img_props (Str ''b.png'') None)]
     (mount no_hook (img_props (Str ''a.png'') None) []))) \<noteq> NOT_STARTED"
  by (simp add: machine_defs)

text \<open>
  Claim C2, as amended. With a non-empty \<open>fallback\<close> B, after the failure notification
  for the source and then the failure notification for B, \<open>imageSrc\<close> is B, the error
  flag is clear (the state is not ERRORED and the error region is not rendered),
  \<open>onError\<close> has been invoked exactly twice, once per notification, and the second
  notification changes nothing but the log of invocations: no other source is
  substituted, and further failure notifications leave \<open>imageSrc\<close> at B and the error
  flag clear. (As stated, with the state settling at ERRORED, the claim fails: see the
  counterexample.)
\<close>

theorem fallback_failure_twice:
  assumes "img_mounted c" and "fallback (cprops c) = Some B" and "B \<noteq> []"
    and "onError (cprops c)"
  shows "imageSrc (cstate (run [ImgError e1, ImgError e2] c)) = Str B \<and>
     \<not> hasError (cstate (run [ImgError e1, ImgError e2] c)) \<and>
     isLoaded (cstate (run [ImgError e1, ImgError e2] c)) = isLoaded (cstate c) \<and>
     calls (cstate (run [ImgError e1, ImgError e2] c)) = calls (cstate c) @ [OnError e1, OnError e2] \<and>
     ErrorNode \<notin> set (render (cprops c) (cstate (run [ImgError e1, ImgError e2] c))) \<and>
     cstate (run [ImgError e1, ImgError e2] c) =
       (cstate (step (ImgError e1) c))\<lparr>calls := calls (cstate (step (ImgError e1) c)) @ [OnError e2]\<rparr> \<and>
     imageSrc (cstate (run (map ImgError (e1 # e2 # es)) c)) = Str B \<and>
     \<not> hasError (cstate (run (map ImgError (e1 # e2 # es)) c)) \<and>
     calls (cstate (run (map ImgError (e1 # e2 # es)) c)) =
       calls (cstate c) @ map OnError (e1 # e2 # es)"
proof -
  define c1 where "c1 = step (ImgError e1) c"
  have s1: "cstate c1 =
      (cstate c)\<lparr>imageSrc := Str B, hasError := False, calls := calls (cstate c) @ [OnError e1]\<rparr>"
    using assms by (simp add: c1_def handleError_fallback invoke_def)
  have p1: "cprops c1 = cprops c"
    using assms by (simp add: c1_def)
  have m1: "img_mounted c1"
    using assms(1) by (simp add: img_mounted_def p1 s1 split: if_splits)
  have s2: "cstate (step (ImgError e2) c1) = (cstate c1)\<lparr>calls := calls (cstate c1) @ [OnError e2]\<rparr>"
    using m1 assms(2-4) by (simp add: p1 handleError_fallback invoke_def s1)
  have r: "run [ImgError e1, ImgError e2] c = step (ImgError e2) c1"
    by (simp only: run.simps c1_def)
  have two: "imageSrc (cstate (run [ImgError e1, ImgError e2] c)) = Str B \<and>
     \<not> hasError (cstate (run [ImgError e1, ImgError e2] c)) \<and>
     isLoaded (cstate (run [ImgError e1, ImgError e2] c)) = isLoaded (cstate c) \<and>
     calls (cstate (run [ImgError e1, ImgError e2] c)) = calls (cstate c) @ [OnError e1, OnError e2] \<and>
     ErrorNode \<notin> set (render (cprops c) (cstate (run [ImgError e1, ImgError e2] c))) \<and>
     cstate (run [ImgError e1, ImgError e2] c) =
       (cstate (step (ImgError e1) c))\<lparr>calls := calls (cstate (step (ImgError e1) c)) @ [OnError e2]\<rparr>"
    unfolding r s2 c1_def [symmetric] by (simp add: s1 error_rendered_iff)
  have fb1: "fallback (cprops c1) = Some B"
    using assms(2) by (simp add: p1)
  have i1: "imageSrc (cstate c1) = Str B" and h1: "\<not> hasError (cstate c1)"
    by (simp_all add: s1)
  have rr: "run (map ImgError (e1 # e2 # es)) c = run (map ImgError (e2 # es)) c1"
    by (simp add: c1_def)
  note many = run_errors_fallback [OF m1 fb1 assms(3) i1 h1, of "e2 # es"]
  have more: "imageSrc (cstate (run (map ImgError (e1 # e2 # es)) c)) = Str B \<and>
     \<not> hasError (cstate (run (map ImgError (e1 # e2 # es)) c)) \<and>
     calls (cstate (run (map ImgError (e1 # e2 # es)) c)) =
       calls (cstate c) @ map OnError (e1 # e2 # es)"
    unfolding rr using many assms(4) by (simp add: p1 s1)
  from two more show ?thesis by blast
qed

theorem fallback_failure_twice_witness:
  "imageSrc (cstate (run [ImgError 1, ImgError 2]
      (mount no_hook (img_props (Str ''a.png'') (Some ''b.png'')) []))) = Str ''b.png'' \<and>
   calls (cstate (run [ImgError 1, ImgError 2]
      (mount no_hook (img_props (Str ''a.png'') (Some ''b.png'')) []))) = [OnError 1, OnError 2] \<and>
   ErrorNode \<notin> set (render (img_props (Str ''a.png'') (Some ''b.png''))
      (cstate (run [ImgError 1, ImgError 2]
        (mount no_hook (img_props (Str ''a.png'') (Some ''b.png'')) [])))) \<and>
   imageSrc (cstate (run [ImgError 1, ImgError 2, ImgError 3]
      (mount no_hook (img_props (Str ''a.png'') (Some ''b.png'')) []))) = Str ''b.png'' \<and>
   \<not> hasError (cstate (run [ImgError 1, ImgError 2, ImgError 3]
      (mount no_hook (img_props (Str ''a.png'') (Some ''b.png'')) [])))"
proof -
  let ?c = "mount no_hook (img_props (Str ''a.png'') (Some ''b.png'')) []"
  have 1: "img_mounted ?c" by (simp add: machine_defs)
  have 2: "fallback (cprops ?c) = Some ''b.png''" by (simp add: mount_cells)
  have 3: "''b.png'' \<noteq> []" by simp
  have 4: "onError (cprops ?c)" by (simp add: mount_cells)
  have cp: "cprops ?c = img_props (Str ''a.png'') (Some ''b.png'')"
    and ca: "calls (cstate ?c) = []"
    by (simp_all add: mount_cells)
  from fallback_failure_twice [OF 1 2 3 4, of 1 2 "[3]"] show ?thesis
    unfolding cp ca append_Nil list.map by blast
qed

theorem fallback_failure_errored_counterexample:
  "imageSrc (cstate (run [ImgError 1, ImgError 2]
      (mount no_hook (img_props (Str ''a.png'') (Some ''b.png'')) []))) = Str ''b.png'' \<and>
   \<not> hasError (cstate (run [ImgError 1, ImgError 2]
      (mount no_hook (img_props (Str ''a.png'') (Some ''b.png'')) []))) \<and>
   loadState (cstate (run [ImgError 1, ImgError 2]
      (mount no_hook (img_props (Str ''a.png'') (Some ''b.png'')) []))) \<noteq> ERRORED"
  by (simp add: machine_defs)

text \<open>
  Claim C3. With source A failing and a non-empty \<open>fallback\<close> B loading: the state
  starts NOT_STARTED with A; the failure handler passes through ERRORED with A, invokes
  \<open>onError\<close> once and ends NOT_STARTED with B, the error flag being set and cleared
  inside the handler; the load notification then gives LOADED with B and invokes
  \<open>onLoad\<close>. The error region is rendered in none of the three states.
\<close>

theorem fallback_success:
  assumes "src p = Str A" and "fallback p = Some B" and "B \<noteq> []"
    and "onLoad p" and "onError p" and "replaceImageSrc l = None"
    and "img_mounted (mount l p u)"
  shows "imageSrc (cstate (mount l p u)) = Str A \<and>
     loadState (cstate (mount l p u)) = NOT_STARTED \<and>
     map (\<lambda>s. (imageSrc s, loadState s)) (trace (handleError_stmts p e1) (cstate (mount l p u)))
       = [(Str A, ERRORED), (Str B, ERRORED), (Str B, NOT_STARTED), (Str B, NOT_STARTED)] \<and>
     cstate (step (ImgError e1) (mount l p u))
       = last (trace (handleError_stmts p e1) (cstate (mount l p u))) \<and>
     imageSrc (cstate (step (ImgError e1) (mount l p u))) = Str B \<and>
     loadState (cstate (step (ImgError e1) (mount l p u))) = NOT_STARTED \<and>
     calls (cstate (step (ImgError e1) (mount l p u))) = [OnError e1] \<and>
     imageSrc (cstate (run [ImgError e1, ImgLoad e2] (mount l p u))) = Str B \<and>
     loadState (cstate (run [ImgError e1, ImgLoad e2] (mount l p u))) = LOADED \<and>
     calls (cstate (run [ImgError e1, ImgLoad e2] (mount l p u))) = [OnError e1, OnLoad e2] \<and>
     ErrorNode \<notin> set (render p (cstate (mount l p u))) \<and>
     ErrorNode \<notin> set (render p (cstate (step (ImgError e1) (mount l p u)))) \<and>
     ErrorNode \<notin> set (render p (cstate (run [ImgError e1, ImgLoad e2] (mount l p u))))"
proof -
  define c0 where "c0 = mount l p u"
  define c1 where "c1 = step (ImgError e1) c0"
  have p0: "cprops c0 = p"
    by (simp add: c0_def mount_cells)
  have m0: "img_mounted c0"
    using assms(7) by (simp add: c0_def)
  have i0: "imageSrc (cstate c0) = Str A"
    using assms(1,6) by (simp add: c0_def mount_cells resolve_def)
  have f0: "\<not> hasError (cstate c0)" "\<not> isLoaded (cstate c0)" "calls (cstate c0) = []"
    by (simp_all add: c0_def mount_cells)
  have l0: "loadState (cstate c0) = NOT_STARTED"
    using f0 by (simp add: loadState_def)
  have tr: "map (\<lambda>s. (imageSrc s, loadState s)) (trace (handleError_stmts p e1) (cstate c0))
       = [(Str A, ERRORED), (Str B, ERRORED), (Str B, NOT_STARTED), (Str B, NOT_STARTED)]"
    using assms(2,3,5) i0 f0
    by (simp add: handleError_stmts_def setHasError_def setImageSrc_def invoke_def loadState_def)
  have s1: "cstate c1 = (cstate c0)\<lparr>imageSrc := Str B, hasError := False, calls := [OnError e1]\<rparr>"
    using m0 assms(2,3,5) f0 by (simp add: c1_def p0 handleError_fallback invoke_def)
  have lt: "cstate c1 = last (trace (handleError_stmts p e1) (cstate c0))"
    using m0 by (simp add: c1_def p0 handleError_last_trace)
  have p1: "cprops c1 = p"
    using p0 by (simp add: c1_def)
  have m1: "img_mounted c1"
    using m0 by (simp add: img_mounted_def p0 p1 s1 split: if_splits)
  have s2: "cstate (step (ImgLoad e2) c1) =
      (cstate c0)\<lparr>imageSrc := Str B, isLoaded := True, hasError := False,
        calls := [OnError e1, OnLoad e2]\<rparr>"
    using m1 assms(4) by (simp add: p1 s1 handleLoad_def invoke_def)
  have r: "run [ImgError e1, ImgLoad e2] c0 = step (ImgLoad e2) c1"
    by (simp only: run.simps c1_def)
  have l1: "loadState (cstate c1) = NOT_STARTED"
    using f0 by (simp add: s1 loadState_def)
  have i1: "imageSrc (cstate c1) = Str B" and k1: "calls (cstate c1) = [OnError e1]"
    by (simp_all add: s1)
  have i2: "imageSrc (cstate (run [ImgError e1, ImgLoad e2] c0)) = Str B"
    and l2: "loadState (cstate (run [ImgError e1, ImgLoad e2] c0)) = LOADED"
    and k2: "calls (cstate (run [ImgError e1, ImgLoad e2] c0)) = [OnError e1, OnLoad e2]"
    unfolding r s2 by (simp_all add: loadState_def)
  have n0: "ErrorNode \<notin> set (render p (cstate c0))"
    using f0 by (simp add: error_rendered_iff)
  have n1: "ErrorNode \<notin> set (render p (cstate c1))"
    by (simp add: error_rendered_iff s1)
  have n2: "ErrorNode \<notin> set (render p (cstate (run [ImgError e1, ImgLoad e2] c0)))"
    unfolding r s2 by (simp add: error_rendered_iff)
  from i0 l0 tr lt i1 l1 k1 i2 l2 k2 n0 n1 n2 show ?thesis
    unfolding c1_def c0_def by blast
qed

theorem fallback_success_witness:
  "map (\<lambda>s. (imageSrc s, loadState s))
      (trace (handleError_stmts (img_props (Str ''a.png'') (Some ''b.png'')) 1)
         (cstate (mount no_hook (img_props (Str ''a.png'') (Some ''b.png'')) [])))
     = [(Str ''a.png'', ERRORED), (Str ''b.png'', ERRORED), (Str ''b.png'', NOT_STARTED),
        (Str ''b.png'', NOT_STARTED)] \<and>
   imageSrc (cstate (run [ImgError 1, ImgLoad 2]
      (mount no_hook (img_props (Str ''a.png'') (Some ''b.png'')) []))) = Str ''b.png'' \<and>
   loadState (cstate (run [ImgError 1, ImgLoad 2]
      (mount no_hook (img_props (Str ''a.png'') (Some ''b.png'')) []))) = LOADED \<and>
   calls (cstate (run [ImgError 1, ImgLoad 2]
      (mount no_hook (img_props (Str ''a.png'') (Some ''b.png'')) []))) = [OnError 1, OnLoad 2] \<and>
   ErrorNode \<notin> set (render (img_props (Str ''a.png'') (Some ''b.png''))
      (cstate (step (ImgError 1) (mount no_hook (img_props (Str ''a.png'') (Some ''b.png'')) []))))"
proof -
  let ?p = "img_props (Str ''a.png'') (Some ''b.png'')"
  have 1: "src ?p = Str ''a.png''" and 2: "fallback ?p = Some ''b.png''"
    and 3: "''b.png'' \<noteq> []" and 4: "onLoad ?p" and 5: "onError ?p"
    and 6: "replaceImageSrc no_hook = None"
    by simp_all
  have 7: "img_mounted (mount no_hook ?p [])"
    by (simp add: machine_defs)
  from fallback_success [OF 1 2 3 4 5 6 7, of 1 2] show ?thesis
    by blast
qed

section \<open>Multi-source rendering\<close>

text \<open>
  Claim C8, as amended. The \<open>picture\<close> mode is chosen iff \<open>srcset\<close> is present and
  non-empty; the \<open>picture\<close> then holds one \<open>source\<close> entry per (type, URL) pair, in the
  order of the mapping, followed last by the plain image entry when \<open>props.src\<close> is
  truthy, and by nothing when it is not. (As stated, with the plain entry always there,
  the claim fails for a \<open>srcset\<close> given without \<open>src\<close>: see the counterexample.)
\<close>

theorem srcset_render_plan:
  "srcsetMode p = (\<exists>m. srcset p = Some m \<and> m \<noteq> []) \<and>
   (srcset p = Some m \<and> m \<noteq> [] \<longrightarrow>
      imageRegion p s =
        PictureNode (map (\<lambda>(type, url). SourceNode type url) m @
                     (if truthy (src p) then [renderImage s] else []))) \<and>
   (\<not> srcsetMode p \<longrightarrow> imageRegion p s = renderImage s)"
  by (auto simp add: srcsetMode_def imageRegion_def renderImageSrcset_def split: option.splits)

theorem srcset_render_plan_witness:
  "srcsetMode ((img_props (Str ''a.jpg'') None)
      \<lparr>srcset := Some [(''image/webp'', ''a.webp''), (''image/png'', ''a.png'')]\<rparr>) \<and>
   imageRegion ((img_props (Str ''a.jpg'') None)
      \<lparr>srcset := Some [(''image/webp'', ''a.webp''), (''image/png'', ''a.png'')]\<rparr>)
     (cstate (mount no_hook ((img_props (Str ''a.jpg'') None)
      \<lparr>srcset := Some [(''image/webp'', ''a.webp''), (''image/png'', ''a.png'')]\<rparr>) []))
   = PictureNode [SourceNode ''image/webp'' ''a.webp'', SourceNode ''image/png'' ''a.png'',
       ImgNode ''a.jpg'']"
proof -
  let ?m = "[(''image/webp'', ''a.webp''), (''image/png'', ''a.png'')]"
  let ?p = "(img_props (Str ''a.jpg'') None)\<lparr>srcset := Some ?m\<rparr>"
  let ?s = "cstate (mount no_hook ?p [])"
  have h: "srcset ?p = Some ?m \<and> ?m \<noteq> []" by simp
  note t = srcset_render_plan [of ?p ?m ?s]
  from t h have 1: "srcsetMode ?p" by blast
  from t h have "imageRegion ?p ?s =
      PictureNode (map (\<lambda>(type, url). SourceNode type url) ?m @
                   (if truthy (src ?p) then [renderImage ?s] else []))"
    by blast
  then have 2: "imageRegion ?p ?s =
      PictureNode [SourceNode ''image/webp'' ''a.webp'', SourceNode ''image/png'' ''a.png'',
        ImgNode ''a.jpg'']"
    by (simp add: renderImage_def machine_defs)
  from 1 2 show ?thesis by blast
qed

theorem srcset_plain_entry_counterexample:
  "srcsetMode ((img_props Undefined None)\<lparr>srcset := Some [(''image/webp'', ''a.webp'')]\<rparr>) \<and>
   render ((img_props Undefined None)\<lparr>srcset := Some [(''image/webp'', ''a.webp'')]\<rparr>)
     (cstate (mount no_hook
        ((img_props Undefined None)\<lparr>srcset := Some [(''image/webp'', ''a.webp'')]\<rparr>) []))
   = [PictureNode [SourceNode ''image/webp'' ''a.webp''], LoadingNode]"
  by (simp add: machine_defs render_def renderPlaceholder_def renderGalleryShadow_def
      renderOverlay_def imageRegion_def renderImageSrcset_def)

section \<open>Error-clear effect\<close>

text \<open>
  Claim C9, as amended. When \<open>hasError\<close> holds and \<open>previewUrl\<close> changes to a
  non-empty value, the error flag is cleared and no other cell but \<open>previewUrl\<close>
  changes: the content region is rendered again when \<open>shouldLoad\<close> holds, and the load
  state is NOT_STARTED when no load had succeeded before, LOADED when one had. (As
  stated, with the state always back at NOT_STARTED, the claim fails after an earlier
  successful load: see the counterexample.)
\<close>

theorem preview_clears_error:
  "hasError s \<Longrightarrow> u \<noteq> previewUrl s \<Longrightarrow> u \<noteq> [] \<Longrightarrow>
     previewChange u s = s\<lparr>previewUrl := u, hasError := False\<rparr> \<and>
     \<not> hasError (previewChange u s) \<and>
     content_shown p (previewChange u s) = shouldLoad s \<and>
     loadState (previewChange u s) = (if isLoaded s then LOADED else NOT_STARTED)"
  by (simp add: previewChange_def previewEffect_def loadState_def content_shown_iff)

theorem preview_clears_error_witness:
  "hasError (cstate (run [PreviewUrl ''a.png'', ImgError 1]
      (mount no_hook (img_props (Str ''a.png'') None) []))) \<and>
   \<not> hasError (cstate (run [PreviewUrl ''a.png'', ImgError 1, PreviewUrl ''blob:1'']
      (mount no_hook (img_props (Str ''a.png'') None) []))) \<and>
   loadState (cstate (run [PreviewUrl ''a.png'', ImgError 1, PreviewUrl ''blob:1'']
      (mount no_hook (img_props (Str ''a.png'') None) []))) = NOT_STARTED"
proof -
  let ?c = "run [PreviewUrl ''a.png'', ImgError 1] (mount no_hook (img_props (Str ''a.png'') None) [])"
  have 1: "hasError (cstate ?c)" by (simp add: machine_defs)
  have 2: "''blob:1'' \<noteq> previewUrl (cstate ?c)" by (simp add: machine_defs)
  have 3: "''blob:1'' \<noteq> []" by simp
  have 4: "\<not> isLoaded (cstate ?c)" by (simp add: machine_defs)
  have r: "cstate (run [PreviewUrl ''a.png'', ImgError 1, PreviewUrl ''blob:1'']
      (mount no_hook (img_props (Str ''a.png'') None) [])) = previewChange ''blob:1'' (cstate ?c)"
    by simp
  from preview_clears_error [OF 1 2 3] 4 have
    "\<not> hasError (previewChange ''blob:1'' (cstate ?c)) \<and>
     loadState (previewChange ''blob:1'' (cstate ?c)) = NOT_STARTED"
    by metis
  with 1 show ?thesis unfolding r by blast
qed

theorem preview_not_started_counterexample:
  "hasError (cstate (run [PreviewUrl ''a.png'', ImgLoad 1,
        Rerender no_hook (img_props (Str ''b.png'') None), PreviewUrl ''b.png'', ImgError 2]
      (mount no_hook (img_props (Str ''a.png'') None) []))) \<and>
   previewUrl (cstate (run [PreviewUrl ''a.png'', ImgLoad 1,
        Rerender no_hook (img_props (Str ''b.png'') None), PreviewUrl ''b.png'', ImgError 2]
      (mount no_hook (img_props (Str ''a.png'') None) []))) = ''b.png'' \<and>
   \<not> hasError (cstate (run [PreviewUrl ''a.png'', ImgLoad 1,
        Rerender no_hook (img_props (Str ''b.png'') None), PreviewUrl ''b.png'', ImgError 2,
        PreviewUrl ''blob:b'']
      (mount no_hook (img_props (Str ''a.png'') None) []))) \<and>
   loadState (cstate (run [PreviewUrl ''a.png'', ImgLoad 1,
        Rerender no_hook (img_props (Str ''b.png'') None), PreviewUrl ''b.png'', ImgError 2,
        PreviewUrl ''blob:b'']
      (mount no_hook (img_props (Str ''a.png'') None) []))) = LOADED"
  by (simp add: machine_defs)

end
